theory Spec2Isabelle
  imports Complex_Main
begin

section \<open>The StateMachine connector of jsPlumb\<close>

text \<open>
  A shallow embedding of \<^verbatim>\<open>src/ts/connector/statemachine-connector.ts\<close>.

  A TypeScript \<^verbatim>\<open>number\<close> is modelled as a \<^typ>\<open>real\<close>: in the functions below the
  arithmetic of the connector (a sum, a halving, a negation, a square root) is taken
  exactly, and the values NaN and the infinities are not represented. Where the rounding
  of a sum matters, the control point solver is given a second time with the addition as
  a parameter, next to a model of the addition of IEEE 754 doubles. An identifier of the
  source that starts with an underscore loses it (\<^verbatim>\<open>_segment\<close> is \<open>segment\<close>), and a
  local variable that would clash with a record field gets a different name.
\<close>

subsection \<open>Array reads and comparisons of JavaScript\<close>

text \<open>
  An anchor position is an \<^verbatim>\<open>Array<number>\<close>, modelled as a list. Reading an index
  that is out of range gives \<^verbatim>\<open>undefined\<close>, here \<open>None\<close>. The source only ever
  compares the elements it reads: a relational comparison with \<^verbatim>\<open>undefined\<close> is
  false, and so is \<^verbatim>\<open>===\<close> between \<^verbatim>\<open>undefined\<close> and a number.
\<close>

definition elem :: "real list \<Rightarrow> nat \<Rightarrow> real option" where
  "elem a i = (if i < length a then Some (a ! i) else None)"

definition js_lt :: "real option \<Rightarrow> real option \<Rightarrow> bool" where
  "js_lt a b = (case a of None \<Rightarrow> False | Some x \<Rightarrow> (case b of None \<Rightarrow> False | Some y \<Rightarrow> x < y))"

definition js_le :: "real option \<Rightarrow> real option \<Rightarrow> bool" where
  "js_le a b = (case a of None \<Rightarrow> False | Some x \<Rightarrow> (case b of None \<Rightarrow> False | Some y \<Rightarrow> x \<le> y))"

definition js_ge :: "real option \<Rightarrow> real option \<Rightarrow> bool" where
  "js_ge a b = (case a of None \<Rightarrow> False | Some x \<Rightarrow> (case b of None \<Rightarrow> False | Some y \<Rightarrow> y \<le> x))"

definition js_eq :: "real option \<Rightarrow> real option \<Rightarrow> bool" where
  "js_eq a b = (case a of None \<Rightarrow> False | Some x \<Rightarrow> (case b of None \<Rightarrow> False | Some y \<Rightarrow> x = y))"

subsection \<open>Segment classification (lines 9 to 20)\<close>

definition segment :: "real \<Rightarrow> real \<Rightarrow> real \<Rightarrow> real \<Rightarrow> real" where
  "segment x1 y1 x2 y2 =
     (if x1 \<le> x2 \<and> y2 \<le> y1 then 1
      else if x1 \<le> x2 \<and> y1 \<le> y2 then 2
      else if x2 \<le> x1 \<and> y2 \<ge> y1 then 3
      else 4)"

subsection \<open>The control point (lines 36 to 87)\<close>

text \<open>
  The function ends after the branch for segment 4 with no \<^verbatim>\<open>else\<close>: for any other
  segment value control falls off its end and the call evaluates to \<^verbatim>\<open>undefined\<close>,
  which is \<open>None\<close> here.
\<close>

definition findControlPoint ::
  "real \<Rightarrow> real \<Rightarrow> real \<Rightarrow> real list \<Rightarrow> real list \<Rightarrow> real \<Rightarrow> real \<Rightarrow> real \<Rightarrow> real
     \<Rightarrow> (real \<times> real) option" where
  "findControlPoint midx midy seg sourceEdge targetEdge dx dy distance proximityLimit =
     (if distance \<le> proximityLimit then Some (midx, midy)
      else if seg = 1 then
        (if js_le (elem sourceEdge 3) (Some 0) \<and> js_ge (elem targetEdge 3) (Some 1) then
           Some (midx + (if js_lt (elem sourceEdge 2) (Some 0.5) then -1 * dx else dx), midy)
         else if js_ge (elem sourceEdge 2) (Some 1) \<and> js_le (elem targetEdge 2) (Some 0) then
           Some (midx, midy + (if js_lt (elem sourceEdge 3) (Some 0.5) then -1 * dy else dy))
         else
           Some (midx + (-1 * dx), midy + (-1 * dy)))
      else if seg = 2 then
        (if js_ge (elem sourceEdge 3) (Some 1) \<and> js_le (elem targetEdge 3) (Some 0) then
           Some (midx + (if js_lt (elem sourceEdge 2) (Some 0.5) then -1 * dx else dx), midy)
         else if js_ge (elem sourceEdge 2) (Some 1) \<and> js_le (elem targetEdge 2) (Some 0) then
           Some (midx, midy + (if js_lt (elem sourceEdge 3) (Some 0.5) then -1 * dy else dy))
         else
           Some (midx + dx, midy + (-1 * dy)))
      else if seg = 3 then
        (if js_ge (elem sourceEdge 3) (Some 1) \<and> js_le (elem targetEdge 3) (Some 0) then
           Some (midx + (if js_lt (elem sourceEdge 2) (Some 0.5) then -1 * dx else dx), midy)
         else if js_le (elem sourceEdge 2) (Some 0) \<and> js_ge (elem targetEdge 2) (Some 1) then
           Some (midx, midy + (if js_lt (elem sourceEdge 3) (Some 0.5) then -1 * dy else dy))
         else
           Some (midx + (-1 * dx), midy + (-1 * dy)))
      else if seg = 4 then
        (if js_le (elem sourceEdge 3) (Some 0) \<and> js_ge (elem targetEdge 3) (Some 1) then
           Some (midx + (if js_lt (elem sourceEdge 2) (Some 0.5) then -1 * dx else dx), midy)
         else if js_le (elem sourceEdge 2) (Some 0) \<and> js_ge (elem targetEdge 2) (Some 1) then
           Some (midx, midy + (if js_lt (elem sourceEdge 3) (Some 0.5) then -1 * dy else dy))
         else
           Some (midx + dx, midy + (-1 * dy)))
      else None)"

subsection \<open>The control point in rounded arithmetic\<close>





text \<open>
  Lines 36 to 87 once more, every \<^verbatim>\<open>+\<close> replaced by the parameter \<open>add\<close>. The
  product \<^verbatim>\<open>-1 * dx\<close> is a negation, which is exact on doubles. With \<open>(+)\<close> for
  \<open>add\<close> this is \<open>findControlPoint\<close>; with \<open>double_add\<close> it is the function on doubles.
\<close>

definition findControlPointWith ::
  "(real \<Rightarrow> real \<Rightarrow> real) \<Rightarrow> real \<Rightarrow> real \<Rightarrow> real \<Rightarrow> real list \<Rightarrow> real list \<Rightarrow> real \<Rightarrow> real \<Rightarrow> real
     \<Rightarrow> real \<Rightarrow> (real \<times> real) option" where
  "findControlPointWith add midx midy seg sourceEdge targetEdge dx dy distance proximityLimit =
     (if distance \<le> proximityLimit then Some (midx, midy)
      else if seg = 1 then
        (if js_le (elem sourceEdge 3) (Some 0) \<and> js_ge (elem targetEdge 3) (Some 1) then
           Some (add midx (if js_lt (elem sourceEdge 2) (Some 0.5) then -1 * dx else dx), midy)
         else if js_ge (elem sourceEdge 2) (Some 1) \<and> js_le (elem targetEdge 2) (Some 0) then
           Some (midx, add midy (if js_lt (elem sourceEdge 3) (Some 0.5) then -1 * dy else dy))
         else
           Some (add midx (-1 * dx), add midy (-1 * dy)))
      else if seg = 2 then
        (if js_ge (elem sourceEdge 3) (Some 1) \<and> js_le (elem targetEdge 3) (Some 0) then
           Some (add midx (if js_lt (elem sourceEdge 2) (Some 0.5) then -1 * dx else dx), midy)
         else if js_ge (elem sourceEdge 2) (Some 1) \<and> js_le (elem targetEdge 2) (Some 0) then
           Some (midx, add midy (if js_lt (elem sourceEdge 3) (Some 0.5) then -1 * dy else dy))
         else
           Some (add midx dx, add midy (-1 * dy)))
      else if seg = 3 then
        (if js_ge (elem sourceEdge 3) (Some 1) \<and> js_le (elem targetEdge 3) (Some 0) then
           Some (add midx (if js_lt (elem sourceEdge 2) (Some 0.5) then -1 * dx else dx), midy)
         else if js_le (elem sourceEdge 2) (Some 0) \<and> js_ge (elem targetEdge 2) (Some 1) then
           Some (midx, add midy (if js_lt (elem sourceEdge 3) (Some 0.5) then -1 * dy else dy))
         else
           Some (add midx (-1 * dx), add midy (-1 * dy)))
      else if seg = 4 then
        (if js_le (elem sourceEdge 3) (Some 0) \<and> js_ge (elem targetEdge 3) (Some 1) then
           Some (add midx (if js_lt (elem sourceEdge 2) (Some 0.5) then -1 * dx else dx), midy)
         else if js_le (elem sourceEdge 2) (Some 0) \<and> js_ge (elem targetEdge 2) (Some 1) then
           Some (midx, add midy (if js_lt (elem sourceEdge 3) (Some 0.5) then -1 * dy else dy))
         else
           Some (add midx dx, add midy (-1 * dy)))
      else None)"

subsection \<open>The connector object and its constructor (lines 91 to 105)\<close>

text \<open>
  The options object: every field is optional, an absent one reads as
  \<^verbatim>\<open>undefined\<close> (\<open>None\<close>).
\<close>

record StateMachineOptions =
  p_curviness :: "real option"
  p_margin :: "real option"
  p_proximityLimit :: "real option"
  p_orientation :: "string option"

text \<open>
  \<^verbatim>\<open>a || d\<close> on an optional number: \<^verbatim>\<open>undefined\<close> and \<open>0\<close> are falsy and give
  the right operand, every other number is kept.
\<close>

definition or_default :: "real option \<Rightarrow> real \<Rightarrow> real" where
  "or_default a d = (case a of None \<Rightarrow> d | Some x \<Rightarrow> if x = 0 then d else x)"

text \<open>
  The value of \<^verbatim>\<open>params.orientation && params.orientation === "clockwise"\<close>: the left
  operand itself when it is falsy (\<^verbatim>\<open>undefined\<close> or the empty string), the result of
  the comparison otherwise.
\<close>

datatype flag = Undefined | EmptyString | Bool bool

definition and_clockwise :: "string option \<Rightarrow> flag" where
  "and_clockwise orientation =
     (case orientation of
        None \<Rightarrow> Undefined
      | Some s \<Rightarrow> if s = [] then EmptyString else Bool (s = ''clockwise''))"

text \<open>The argument object of \<^verbatim>\<open>_addSegment\<close> (lines 183 to 185).\<close>

record BezierSegmentParams =
  x1 :: real
  y1 :: real
  x2 :: real
  y2 :: real
  cp1x :: real
  cp1y :: real
  cp2x :: real
  cp2y :: real

text \<open>
  The fields of the connector that this file assigns or reads. \<open>segments\<close> is the list of
  segment descriptors the connector has added, oldest first.
\<close>

record StateMachine =
  curviness :: real
  margin :: real
  proximityLimit :: real
  clockwise :: flag
  controlPoint :: "(real \<times> real) option"
  segments :: "BezierSegmentParams list"

text \<open>
  The constructor of the superclass is not part of the source under study: the object it
  leaves behind is the parameter \<open>this\<close>, and lines 101 to 104 overwrite four fields.
\<close>

definition constructor :: "StateMachine \<Rightarrow> StateMachineOptions \<Rightarrow> StateMachine" where
  "constructor this params =
     this\<lparr>curviness := or_default (p_curviness params) 10,
          margin := or_default (p_margin params) 5,
          proximityLimit := or_default (p_proximityLimit params) 80,
          clockwise := and_clockwise (p_orientation params)\<rparr>"

subsection \<open>The compute step (lines 107 to 187)\<close>

record ConnectorComputeParams =
  sourcePos :: "real list"
  targetPos :: "real list"

text \<open>Lines 108 to 111: the corners \<open>(_sx, _sy, _tx, _ty)\<close> before the margin.\<close>

definition corners :: "real list \<Rightarrow> real list \<Rightarrow> real \<Rightarrow> real \<Rightarrow> real \<times> real \<times> real \<times> real" where
  "corners sp tp w h =
     (if js_lt (elem sp 0) (elem tp 0) then 0 else w,
      if js_lt (elem sp 1) (elem tp 1) then 0 else h,
      if js_lt (elem sp 0) (elem tp 0) then w else 0,
      if js_lt (elem sp 1) (elem tp 1) then h else 0)"

text \<open>
  Lines 113 to 137: eight statements, each an \<^verbatim>\<open>if\<close> without \<^verbatim>\<open>else\<close> that
  updates one corner coordinate in place.
\<close>

definition adjustMargin ::
  "real \<Rightarrow> real list \<Rightarrow> real list \<Rightarrow> real \<times> real \<times> real \<times> real \<Rightarrow> real \<times> real \<times> real \<times> real" where
  "adjustMargin m sp tp c =
     (case c of (sx0, sy0, tx0, ty0) \<Rightarrow>
        let sx1 = (if js_eq (elem sp 2) (Some 0) then sx0 - m else sx0);
            sx2 = (if js_eq (elem sp 2) (Some 1) then sx1 + m else sx1);
            sy1 = (if js_eq (elem sp 3) (Some 0) then sy0 - m else sy0);
            sy2 = (if js_eq (elem sp 3) (Some 1) then sy1 + m else sy1);
            tx1 = (if js_eq (elem tp 2) (Some 0) then tx0 - m else tx0);
            tx2 = (if js_eq (elem tp 2) (Some 1) then tx1 + m else tx1);
            ty1 = (if js_eq (elem tp 3) (Some 0) then ty0 - m else ty0);
            ty2 = (if js_eq (elem tp 3) (Some 1) then ty1 + m else ty1)
        in (sx2, sy2, tx2, ty2))"

text \<open>
  Modelled from the spec: \<^verbatim>\<open>_addSegment\<close> is a method of the abstract connector, which
  is not part of the source under study. The specification has the compute step forward
  one descriptor to the painting pipeline; the model records the descriptor handed over
  by appending it to \<open>segments\<close>, and nothing else about the call.
\<close>

definition addSegment :: "StateMachine \<Rightarrow> BezierSegmentParams \<Rightarrow> StateMachine" where
  "addSegment this d = this\<lparr>segments := segments this @ [d]\<rparr>"

text \<open>
  Reading \<^verbatim>\<open>this._controlPoint[0]\<close> when the control point is \<^verbatim>\<open>undefined\<close>
  throws a TypeError, the one way the method can fail. The parameters
  \<^verbatim>\<open>paintInfo\<close>, \<^verbatim>\<open>sp\<close> and \<^verbatim>\<open>tp\<close> of the source are never read and are left out.
\<close>

datatype error = TypeError

definition computeBezier ::
  "StateMachine \<Rightarrow> ConnectorComputeParams \<Rightarrow> real \<Rightarrow> real \<Rightarrow> error + StateMachine" where
  "computeBezier this params w h =
     (case adjustMargin (margin this) (sourcePos params) (targetPos params)
             (corners (sourcePos params) (targetPos params) w h) of
        (sx, sy, tx, ty) \<Rightarrow>
          let midx = (sx + tx) / 2;
              midy = (sy + ty) / 2;
              seg = segment sx sy tx ty;
              distance = sqrt ((tx - sx)\<^sup>2 + (ty - sy)\<^sup>2);
              cp = findControlPoint midx midy seg (sourcePos params) (targetPos params)
                     (curviness this) (curviness this) distance (proximityLimit this)
          in (case cp of
                None \<Rightarrow> Inl TypeError
              | Some (cx, cy) \<Rightarrow>
                  Inr (addSegment (this\<lparr>controlPoint := cp\<rparr>)
                         \<lparr>x1 = tx, y1 = ty, x2 = sx, y2 = sy,
                          cp1x = cx, cp1y = cy, cp2x = cx, cp2y = cy\<rparr>)))"

subsection \<open>The vocabulary of the specification\<close>

text \<open>
  The four segments by name, with the numbers that encode them, and the classification
  rules in the words of the specification.
\<close>

datatype Segment = TopRight | BottomRight | BottomLeft | TopLeft

fun code :: "Segment \<Rightarrow> real" where
  "code TopRight = 1"
| "code BottomRight = 2"
| "code BottomLeft = 3"
| "code TopLeft = 4"

definition spec_classify :: "real \<Rightarrow> real \<Rightarrow> real \<Rightarrow> real \<Rightarrow> Segment" where
  "spec_classify a1 b1 a2 b2 =
     (if a1 \<le> a2 \<and> b2 \<le> b1 then TopRight
      else if a1 \<le> a2 \<and> b1 \<le> b2 then BottomRight
      else if a2 \<le> a1 \<and> b2 \<ge> b1 then BottomLeft
      else TopLeft)"

text \<open>
  The rule table of the control point solver in the words of the specification: the two
  offset forms, then one row per segment, each row tested in the order A, B, default.
\<close>

definition spec_formA :: "real \<Rightarrow> real \<Rightarrow> real \<Rightarrow> real \<Rightarrow> real \<times> real" where
  "spec_formA midx midy dx srcX = (if srcX < 0.5 then midx - dx else midx + dx, midy)"

definition spec_formB :: "real \<Rightarrow> real \<Rightarrow> real \<Rightarrow> real \<Rightarrow> real \<times> real" where
  "spec_formB midx midy dy srcY = (midx, if srcY < 0.5 then midy - dy else midy + dy)"

fun spec_solve ::
  "Segment \<Rightarrow> real \<Rightarrow> real \<Rightarrow> real \<Rightarrow> real \<Rightarrow> real \<Rightarrow> real \<Rightarrow> real \<Rightarrow> real \<Rightarrow> real \<times> real" where
  "spec_solve TopRight srcX srcY tgtX tgtY midx midy dx dy =
     (if srcY \<le> 0 \<and> tgtY \<ge> 1 then spec_formA midx midy dx srcX
      else if srcX \<ge> 1 \<and> tgtX \<le> 0 then spec_formB midx midy dy srcY
      else (midx - dx, midy - dy))"
| "spec_solve BottomRight srcX srcY tgtX tgtY midx midy dx dy =
     (if srcY \<ge> 1 \<and> tgtY \<le> 0 then spec_formA midx midy dx srcX
      else if srcX \<ge> 1 \<and> tgtX \<le> 0 then spec_formB midx midy dy srcY
      else (midx + dx, midy - dy))"
| "spec_solve BottomLeft srcX srcY tgtX tgtY midx midy dx dy =
     (if srcY \<ge> 1 \<and> tgtY \<le> 0 then spec_formA midx midy dx srcX
      else if srcX \<le> 0 \<and> tgtX \<ge> 1 then spec_formB midx midy dy srcY
      else (midx - dx, midy - dy))"
| "spec_solve TopLeft srcX srcY tgtX tgtY midx midy dx dy =
     (if srcY \<le> 0 \<and> tgtY \<ge> 1 then spec_formA midx midy dx srcX
      else if srcX \<le> 0 \<and> tgtX \<ge> 1 then spec_formB midx midy dy srcY
      else (midx + dx, midy - dy))"

section \<open>Auxiliary facts\<close>

lemma elem_Nil [simp]: "elem [] i = None"
  by (simp add: elem_def)

lemma elem_Cons_0 [simp]: "elem (x # xs) 0 = Some x"
  by (simp add: elem_def)

lemma elem_Cons_Suc [simp]: "elem (x # xs) (Suc i) = elem xs i"
  by (simp add: elem_def)

lemma elem_Cons_numeral [simp]: "elem (x # xs) (numeral k) = elem xs (pred_numeral k)"
  by (simp add: elem_def)

lemma js_Some [simp]:
  "js_lt (Some x) (Some y) = (x < y)" "js_le (Some x) (Some y) = (x \<le> y)"
  "js_ge (Some x) (Some y) = (y \<le> x)" "js_eq (Some x) (Some y) = (x = y)"
  by (simp_all add: js_lt_def js_le_def js_ge_def js_eq_def)

lemma segment_range: "segment a1 b1 a2 b2 \<in> {1, 2, 3, 4}"
  by (simp add: segment_def)

lemma findControlPoint_defined:
  "(\<exists>cp. findControlPoint midx midy seg sourceEdge targetEdge dx dy distance plimit = Some cp)
     = (distance \<le> plimit \<or> seg \<in> {1, 2, 3, 4})"
  by (auto simp add: findControlPoint_def)

text \<open>The compute step, once its corners and its control point are known.\<close>

lemma computeBezier_Some:
  assumes "adjustMargin (margin this) (sourcePos params) (targetPos params)
             (corners (sourcePos params) (targetPos params) w h) = (sx, sy, tx, ty)"
    and "findControlPoint ((sx + tx) / 2) ((sy + ty) / 2) (segment sx sy tx ty)
           (sourcePos params) (targetPos params) (curviness this) (curviness this)
           (sqrt ((tx - sx)\<^sup>2 + (ty - sy)\<^sup>2)) (proximityLimit this) = Some (cx, cy)"
  shows "computeBezier this params w h =
           Inr (this\<lparr>controlPoint := Some (cx, cy),
                     segments := segments this @
                       [\<lparr>x1 = tx, y1 = ty, x2 = sx, y2 = sy,
                         cp1x = cx, cp1y = cy, cp2x = cx, cp2y = cy\<rparr>]\<rparr>)"
  using assms by (simp add: computeBezier_def Let_def addSegment_def)

text \<open>
  The classifier only produces 1 to 4, so inside the compute step the solver always
  yields a point and the TypeError branch is never taken.
\<close>

lemma computeBezier_unfolded:
  "\<exists>sx sy tx ty cx cy.
      adjustMargin (margin this) (sourcePos params) (targetPos params)
        (corners (sourcePos params) (targetPos params) w h) = (sx, sy, tx, ty)
    \<and> findControlPoint ((sx + tx) / 2) ((sy + ty) / 2) (segment sx sy tx ty)
        (sourcePos params) (targetPos params) (curviness this) (curviness this)
        (sqrt ((tx - sx)\<^sup>2 + (ty - sy)\<^sup>2)) (proximityLimit this) = Some (cx, cy)
    \<and> computeBezier this params w h =
        Inr (this\<lparr>controlPoint := Some (cx, cy),
                  segments := segments this @
                    [\<lparr>x1 = tx, y1 = ty, x2 = sx, y2 = sy,
                      cp1x = cx, cp1y = cy, cp2x = cx, cp2y = cy\<rparr>]\<rparr>)"
proof -
  obtain sx sy tx ty where c:
    "adjustMargin (margin this) (sourcePos params) (targetPos params)
       (corners (sourcePos params) (targetPos params) w h) = (sx, sy, tx, ty)"
    by (metis prod_cases4)
  have "segment sx sy tx ty \<in> {1, 2, 3, 4}" by (rule segment_range)
  then obtain cp where
    "findControlPoint ((sx + tx) / 2) ((sy + ty) / 2) (segment sx sy tx ty)
       (sourcePos params) (targetPos params) (curviness this) (curviness this)
       (sqrt ((tx - sx)\<^sup>2 + (ty - sy)\<^sup>2)) (proximityLimit this) = Some cp"
    using findControlPoint_defined by blast
  then obtain cx cy where f:
    "findControlPoint ((sx + tx) / 2) ((sy + ty) / 2) (segment sx sy tx ty)
       (sourcePos params) (targetPos params) (curviness this) (curviness this)
       (sqrt ((tx - sx)\<^sup>2 + (ty - sy)\<^sup>2)) (proximityLimit this) = Some (cx, cy)"
    by (cases cp) simp
  from computeBezier_Some [OF c f] c f show ?thesis by blast
qed

lemma computeBezier_total: "\<exists>this'. computeBezier this params w h = Inr this'"
  using computeBezier_unfolded [of this params w h] by blast

lemma computeBezier_clockwise:
  "computeBezier (this\<lparr>clockwise := c\<rparr>) params w h
     = map_sum id (\<lambda>s. s\<lparr>clockwise := c\<rparr>) (computeBezier this params w h)"
  by (simp add: computeBezier_def Let_def addSegment_def split: prod.splits option.splits)

lemma constructor_orientation:
  "constructor base (opts\<lparr>p_orientation := orientation\<rparr>)
     = (constructor base opts)\<lparr>clockwise := and_clockwise orientation\<rparr>"
  by (simp add: constructor_def)

lemma computeBezier_two_flags:
  "\<exists>a b. computeBezier (this\<lparr>clockwise := c1\<rparr>) params w h = Inr a
      \<and> computeBezier (this\<lparr>clockwise := c2\<rparr>) params w h = Inr b
      \<and> controlPoint a = controlPoint b \<and> segments a = segments b
      \<and> b = a\<lparr>clockwise := c2\<rparr>"
proof -
  obtain r where r: "computeBezier this params w h = Inr r"
    using computeBezier_total by blast
  have "computeBezier (this\<lparr>clockwise := c1\<rparr>) params w h = Inr (r\<lparr>clockwise := c1\<rparr>)"
    and "computeBezier (this\<lparr>clockwise := c2\<rparr>) params w h = Inr (r\<lparr>clockwise := c2\<rparr>)"
    by (simp_all add: computeBezier_clockwise r)
  then show ?thesis by simp
qed

text \<open>Scenario A of the specification, stage by stage.\<close>

lemma corners_A: "corners [0, 0, 0, 0] [200, 100, 1, 1] 50 30 = (0, 0, 50, 30)"
  by (simp add: corners_def)

lemma adjust_A: "adjustMargin 5 [0, 0, 0, 0] [200, 100, 1, 1] (0, 0, 50, 30) = (- 5, - 5, 55, 35)"
  by (simp add: adjustMargin_def)

lemma dist_A: "sqrt ((55 - (- 5))\<^sup>2 + (35 - (- 5))\<^sup>2) \<le> (80::real)"
  by (rule real_le_lsqrt) simp_all

text \<open>The solver with the exact sum for \<open>add\<close> is the solver above.\<close>

lemma findControlPointWith_plus:
  "findControlPointWith (+) midx midy seg sourceEdge targetEdge dx dy distance plimit
     = findControlPoint midx midy seg sourceEdge targetEdge dx dy distance plimit"
  by (simp add: findControlPointWith_def findControlPoint_def)






section \<open>The claims\<close>

text \<open>
  C1. When the distance exceeds the proximity limit, the control point solver returns, for
  each segment 1 to 4, the point of the rule table of the specification: the branches of
  the segment's row are tested in order on the proportional positions of the two anchors
  and the first match wins. For BottomRight: if srcY \<ge> 1 and tgtY \<le> 0 the point is
  (midx \<plusminus> dx, midy), minus when srcX < 0.5; else if srcX \<ge> 1 and tgtX \<le> 0 it is
  (midx, midy \<plusminus> dy), minus when srcY < 0.5; else (midx + dx, midy - dy). The anchors are
  the four-element arrays the source documents.
\<close>

theorem rule_table:
  "plimit < distance \<Longrightarrow>
     findControlPoint midx midy (code s) [sa, sb, srcX, srcY] [ta, tb, tgtX, tgtY] dx dy distance plimit
       = Some (spec_solve s srcX srcY tgtX tgtY midx midy dx dy)"
  by (cases s) (simp_all add: findControlPoint_def spec_formA_def spec_formB_def)

theorem rule_table_witness:
  "(80::real) < 264 \<and>
   findControlPoint 100 75 (code BottomRight) [0, 0, 0, 0] [200, 100, 1, 1] 10 10 264 80
     = Some (110, 65)"
  using rule_table [of 80 264 100 75 BottomRight 0 0 0 0 200 100 1 1 10 10] by simp

text \<open>
  C2. For all real corner coordinates, segment classification returns exactly one of the
  four values 1 to 4, chosen by the precedence of the specification (rule 1, else rule 2,
  else rule 3, else 4); and when the two corners have the same x coordinate the result is
  1 or 2, never 3 or 4.
\<close>

theorem segment_classification:
  "segment a1 b1 a2 b2 = code (spec_classify a1 b1 a2 b2)
   \<and> segment a1 b1 a2 b2 \<in> {1, 2, 3, 4}
   \<and> (a1 = a2 \<longrightarrow> segment a1 b1 a2 b2 \<in> {1, 2})"
  by (auto simp add: segment_def spec_classify_def)

theorem segment_classification_witness:
  "segment 3 7 3 7 = code (spec_classify 3 7 3 7)
   \<and> segment 3 7 3 7 \<in> {1, 2, 3, 4}
   \<and> ((3::real) = 3 \<and> segment 3 7 3 7 = 1)"
  using segment_classification [of 3 7 3 7] by (simp add: segment_def)

text \<open>
  C3. Whenever the distance is at most the proximity limit, the control point is exactly
  the midpoint, whatever the segment value and whatever the two anchors hold.
\<close>

theorem proximity_fallback:
  "distance \<le> plimit \<Longrightarrow>
     findControlPoint midx midy seg sourceEdge targetEdge dx dy distance plimit = Some (midx, midy)"
  by (simp add: findControlPoint_def)

theorem proximity_fallback_witness:
  "(72::real) \<le> 80 \<and> findControlPoint 25 15 7 [0, 0, 0, 0] [200, 100, 1, 1] 10 10 72 80 = Some (25, 15)"
  using proximity_fallback [of 72 80 25 15 7 "[0, 0, 0, 0]" "[200, 100, 1, 1]" 10 10] by simp




text \<open>
  C5. Each of the four corner coordinates is adjusted on its own, by the proportional
  position of its anchor on its axis: exactly 0 subtracts the margin, exactly 1 adds it,
  and any other value (between 0 and 1, outside that range, or absent) leaves the
  coordinate as it was. The adjustment has no error branch.
\<close>

theorem margin_cases:
  "adjustMargin m sp tp (sx, sy, tx, ty) =
     (if elem sp 2 = Some 0 then sx - m else if elem sp 2 = Some 1 then sx + m else sx,
      if elem sp 3 = Some 0 then sy - m else if elem sp 3 = Some 1 then sy + m else sy,
      if elem tp 2 = Some 0 then tx - m else if elem tp 2 = Some 1 then tx + m else tx,
      if elem tp 3 = Some 0 then ty - m else if elem tp 3 = Some 1 then ty + m else ty)"
  by (auto simp add: adjustMargin_def js_eq_def Let_def split: option.splits)

text \<open>
  C6. Every run of the compute step succeeds and adds exactly one descriptor: its first
  endpoint is the margin-adjusted target corner, its second endpoint the margin-adjusted
  source corner, and both control handles are the one control point the solver returned,
  which is also stored in the connector.
\<close>

theorem emits_one_descriptor:
  "\<exists>sx sy tx ty cx cy.
      adjustMargin (margin this) (sourcePos params) (targetPos params)
        (corners (sourcePos params) (targetPos params) w h) = (sx, sy, tx, ty)
    \<and> findControlPoint ((sx + tx) / 2) ((sy + ty) / 2) (segment sx sy tx ty)
        (sourcePos params) (targetPos params) (curviness this) (curviness this)
        (sqrt ((tx - sx)\<^sup>2 + (ty - sy)\<^sup>2)) (proximityLimit this) = Some (cx, cy)
    \<and> computeBezier this params w h =
        Inr (this\<lparr>controlPoint := Some (cx, cy),
                  segments := segments this @
                    [\<lparr>x1 = tx, y1 = ty, x2 = sx, y2 = sy,
                      cp1x = cx, cp1y = cy, cp2x = cx, cp2y = cy\<rparr>]\<rparr>)"
  by (rule computeBezier_unfolded)

text \<open>
  C7. Scenario A: source anchor (0, 0, 0, 0), target anchor (200, 100, 1, 1), box 50 by
  30, margin 5, curviness 10, proximity limit 80. The adjusted corners are (-5, -5) and
  (55, 35), the segment is 2, the squared distance is 5200 and the distance at most 80,
  the control point is (25, 15), and the descriptor added has x1 = 55, y1 = 35, x2 = -5,
  y2 = -5 and both handles at (25, 15).
\<close>

theorem scenario_A:
  "adjustMargin 5 [0, 0, 0, 0] [200, 100, 1, 1] (corners [0, 0, 0, 0] [200, 100, 1, 1] 50 30)
     = (- 5, - 5, 55, 35)
   \<and> segment (- 5) (- 5) 55 35 = 2
   \<and> (55 - (- 5 :: real))\<^sup>2 + (35 - (- 5))\<^sup>2 = 5200
   \<and> sqrt ((55 - (- 5))\<^sup>2 + (35 - (- 5))\<^sup>2) \<le> (80::real)
   \<and> findControlPoint ((- 5 + 55) / 2) ((- 5 + 35) / 2) 2 [0, 0, 0, 0] [200, 100, 1, 1] 10 10
        (sqrt ((55 - (- 5))\<^sup>2 + (35 - (- 5))\<^sup>2)) 80 = Some (25, 15)
   \<and> computeBezier (this\<lparr>curviness := 10, margin := 5, proximityLimit := 80\<rparr>)
        \<lparr>sourcePos = [0, 0, 0, 0], targetPos = [200, 100, 1, 1]\<rparr> 50 30
      = Inr (this\<lparr>curviness := 10, margin := 5, proximityLimit := 80,
                  controlPoint := Some (25, 15),
                  segments := segments this @
                    [\<lparr>x1 = 55, y1 = 35, x2 = - 5, y2 = - 5,
                      cp1x = 25, cp1y = 15, cp2x = 25, cp2y = 15\<rparr>]\<rparr>)"
proof -
  have c: "adjustMargin 5 [0, 0, 0, 0] [200, 100, 1, 1] (corners [0, 0, 0, 0] [200, 100, 1, 1] 50 30)
     = (- 5, - 5, 55, 35)"
    by (simp only: corners_A adjust_A)
  have s: "segment (- 5) (- 5) 55 35 = 2" by (simp add: segment_def)
  have q: "(55 - (- 5 :: real))\<^sup>2 + (35 - (- 5))\<^sup>2 = 5200" by simp
  have f: "findControlPoint ((- 5 + 55) / 2) ((- 5 + 35) / 2) 2 [0, 0, 0, 0] [200, 100, 1, 1] 10 10
        (sqrt ((55 - (- 5))\<^sup>2 + (35 - (- 5))\<^sup>2)) 80 = Some (25, 15)"
    using dist_A by (simp add: findControlPoint_def)
  have b: "computeBezier (this\<lparr>curviness := 10, margin := 5, proximityLimit := 80\<rparr>)
        \<lparr>sourcePos = [0, 0, 0, 0], targetPos = [200, 100, 1, 1]\<rparr> 50 30
      = Inr (this\<lparr>curviness := 10, margin := 5, proximityLimit := 80,
                  controlPoint := Some (25, 15),
                  segments := segments this @
                    [\<lparr>x1 = 55, y1 = 35, x2 = - 5, y2 = - 5,
                      cp1x = 25, cp1y = 15, cp2x = 25, cp2y = 15\<rparr>]\<rparr>)"
    using computeBezier_Some [of "this\<lparr>curviness := 10, margin := 5, proximityLimit := 80\<rparr>"
        "\<lparr>sourcePos = [0, 0, 0, 0], targetPos = [200, 100, 1, 1]\<rparr>" 50 30 "- 5" "- 5" 55 35 25 15]
      c s f by simp
  from c s q dist_A f b show ?thesis by blast
qed

text \<open>
  C8. The control point solver has no failure condition: on each of the four segments,
  which are the values 1 to 4 and the only values the classifier produces, it returns a
  control point whatever the other arguments are, because every segment has a default
  branch; and the compute step, which passes the classifier's result, never fails.
\<close>

theorem solver_total:
  "(seg \<in> {1, 2, 3, 4} \<longrightarrow>
      (\<exists>cp. findControlPoint midx midy seg sourceEdge targetEdge dx dy distance plimit = Some cp))
   \<and> (\<exists>cp. findControlPoint midx midy (code s) sourceEdge targetEdge dx dy distance plimit = Some cp)
   \<and> (\<exists>cp. findControlPoint midx midy (segment a1 b1 a2 b2) sourceEdge targetEdge dx dy distance plimit
          = Some cp)
   \<and> (\<exists>this'. computeBezier this params w h = Inr this')"
proof -
  have "code s \<in> {1, 2, 3, 4}" by (cases s) simp_all
  with findControlPoint_defined segment_range computeBezier_total show ?thesis by blast
qed

theorem solver_total_witness:
  "(2::real) \<in> {1, 2, 3, 4}
   \<and> findControlPoint 100 75 2 [0, 0, 0, 0] [200, 100, 1, 1] 10 10 264 80 = Some (110, 65)
   \<and> (\<exists>cp. findControlPoint 100 75 (code BottomRight) [0, 0, 0, 0] [200, 100, 1, 1] 10 10 264 80
              = Some cp)"
  using solver_total
    [of 2 100 75 "[0, 0, 0, 0]" "[200, 100, 1, 1]" 10 10 264 80 BottomRight]
  by (simp add: findControlPoint_def)

text \<open>
  C9. Two runs of the compute step that differ only in the clockwise flag of the connector,
  or only in the orientation option given to its constructor, both succeed with the same
  control point and the same descriptors; the resulting connectors differ in the flag
  alone.
\<close>

theorem orientation_ignored:
  "(\<exists>a b. computeBezier (this\<lparr>clockwise := c1\<rparr>) params w h = Inr a
      \<and> computeBezier (this\<lparr>clockwise := c2\<rparr>) params w h = Inr b
      \<and> controlPoint a = controlPoint b \<and> segments a = segments b
      \<and> b = a\<lparr>clockwise := c2\<rparr>)
   \<and> (\<exists>a b. computeBezier (constructor base (opts\<lparr>p_orientation := o1\<rparr>)) params w h = Inr a
      \<and> computeBezier (constructor base (opts\<lparr>p_orientation := o2\<rparr>)) params w h = Inr b
      \<and> controlPoint a = controlPoint b \<and> segments a = segments b
      \<and> b = a\<lparr>clockwise := and_clockwise o2\<rparr>)"
  unfolding constructor_orientation
  by (rule conjI) (rule computeBezier_two_flags)+

text \<open>
  C10. The constructor reads curviness, margin and proximityLimit with the
  \<^verbatim>\<open>||\<close> idiom: an explicit 0, like an absent value, is replaced by the default 10, 5
  and 80; so none of the three fields is ever 0 after construction, and curviness cannot
  be configured to 0.
\<close>

theorem falsy_defaults:
  "curviness (constructor this (opts\<lparr>p_curviness := Some 0\<rparr>)) = 10
   \<and> margin (constructor this (opts\<lparr>p_margin := Some 0\<rparr>)) = 5
   \<and> proximityLimit (constructor this (opts\<lparr>p_proximityLimit := Some 0\<rparr>)) = 80
   \<and> curviness (constructor this (opts\<lparr>p_curviness := None\<rparr>)) = 10
   \<and> margin (constructor this (opts\<lparr>p_margin := None\<rparr>)) = 5
   \<and> proximityLimit (constructor this (opts\<lparr>p_proximityLimit := None\<rparr>)) = 80
   \<and> curviness (constructor this opts) \<noteq> 0
   \<and> margin (constructor this opts) \<noteq> 0
   \<and> proximityLimit (constructor this opts) \<noteq> 0"
  by (simp add: constructor_def or_default_def split: option.splits)

end
